theory Spec2Isabelle
  imports Main "HOL-Library.Word"
begin

section \<open>Python values used by \<^verbatim>\<open>cli.py\<close>\<close>

text \<open>
  A Python \<^verbatim>\<open>str\<close> is a sequence of Unicode code points, so it is modelled as a list
  of natural numbers. \<open>lit\<close> reads a string literal of the source (all of them are ASCII).
\<close>

type_synonym pystr = "nat list"

definition lit :: "string \<Rightarrow> pystr" where
  "lit s = map of_char s"

text \<open>
  The code points that \<^verbatim>\<open>str.isspace\<close> and \<^verbatim>\<open>str.split()\<close> treat as whitespace:
  U+0009..U+000D, U+001C..U+0020, U+0085, U+00A0, U+1680, U+2000..U+200A, U+2028,
  U+2029, U+202F, U+205F and U+3000.
\<close>

definition isspace :: "nat \<Rightarrow> bool" where
  "isspace c =
     ((9 \<le> c \<and> c \<le> 13) \<or> (28 \<le> c \<and> c \<le> 32) \<or> c = 133 \<or> c = 160 \<or> c = 5760 \<or>
      (8192 \<le> c \<and> c \<le> 8202) \<or> c = 8232 \<or> c = 8233 \<or> c = 8239 \<or> c = 8287 \<or>
      c = 12288)"

text \<open>
  \<^verbatim>\<open>s.split()\<close> with no separator: skip a run of whitespace; when the string is used
  up, stop; otherwise the word runs up to the next whitespace character or the end, and
  the scan goes on behind it. The result never holds an empty word.
\<close>

function str_split :: "pystr \<Rightarrow> pystr list" where
  "str_split s =
     (case dropWhile isspace s of
        [] \<Rightarrow> []
      | c # cs \<Rightarrow>
          (c # takeWhile (\<lambda>x. \<not> isspace x) cs) #
          str_split (dropWhile (\<lambda>x. \<not> isspace x) cs))"
  by pat_completeness auto
termination
proof (relation "measure length")
  show "wf (measure (length :: pystr \<Rightarrow> nat))"
    by simp
next
  fix s :: pystr and c cs
  assume rest: "dropWhile isspace s = c # cs"
  have "length (dropWhile (\<lambda>x. \<not> isspace x) cs) \<le> length cs"
    by (rule length_dropWhile_le)
  also have "length cs < length (dropWhile isspace s)"
    by (simp add: rest)
  also have "length (dropWhile isspace s) \<le> length s"
    by (rule length_dropWhile_le)
  finally show "(dropWhile (\<lambda>x. \<not> isspace x) cs, s) \<in> measure length"
    by simp
qed

declare str_split.simps [simp del]

text \<open>
  The exceptions the program can end with: \<^verbatim>\<open>IndexError\<close> from the subscript, and
  \<^verbatim>\<open>SystemExit\<close> carrying the exit code.
\<close>

datatype py_exception = IndexError | SystemExit int

text \<open>
  \<^verbatim>\<open>xs[i]\<close> on a list: a negative index counts from the end, and an index outside the
  list raises \<^verbatim>\<open>IndexError\<close>.
\<close>

definition getitem :: "'a list \<Rightarrow> int \<Rightarrow> py_exception + 'a" where
  "getitem xs i =
     (let k = (if i < 0 then i + int (length xs) else i) in
      if k < 0 \<or> int (length xs) \<le> k then Inl IndexError else Inr (xs ! nat k))"

section \<open>The runtime the script runs in\<close>

text \<open>
  What an invocation can see or change: the interpreter's \<^verbatim>\<open>sys.version\<close>, the argument
  vector, the environment variables, the two output streams as the text written to them so
  far, and \<open>world\<close> for everything else (files, network, persisted state). Standard output
  is a text stream that accepts every write.
\<close>

record 'w runtime =
  sys_version :: pystr
  sys_argv :: "pystr list"
  environ :: "(pystr \<times> pystr) list"
  stdout :: pystr
  stderr :: pystr
  world :: 'w

text \<open>\<^verbatim>\<open>print(s)\<close> writes \<open>s\<close> and a newline (U+000A) to standard output.\<close>

definition print :: "pystr \<Rightarrow> 'w runtime \<Rightarrow> 'w runtime" where
  "print s rt = rt\<lparr>stdout := stdout rt @ s @ [10]\<rparr>"

section \<open>\<^verbatim>\<open>cli.py\<close>\<close>

definition banner :: pystr where
  "banner = lit ''Running example Python CLI from usefull-scripts''"

text \<open>
  \<^verbatim>\<open>
  def main():
      print("Running example Python CLI from usefull-scripts")
      print(f"Python: {sys.version.split()[0]}")
      return 0
  \<close>
  The result is the value returned or the exception raised, with the runtime as it is at
  that moment: an exception in the second statement leaves the banner written.
\<close>

definition main :: "'w runtime \<Rightarrow> (py_exception + int) \<times> 'w runtime" where
  "main rt =
     (let rt1 = print banner rt in
      case getitem (str_split (sys_version rt1)) 0 of
        Inl e \<Rightarrow> (Inl e, rt1)
      | Inr v \<Rightarrow> (Inr 0, print (lit ''Python: '' @ v) rt1))"

text \<open>
  \<^verbatim>\<open>
  if __name__ == '__main__':
      raise SystemExit(main())
  \<close>
  Run as a script, the module ends with an exception in every case: the one \<open>main\<close>
  raised, or \<^verbatim>\<open>SystemExit\<close> with the value \<open>main\<close> returned.
\<close>

definition script :: "'w runtime \<Rightarrow> py_exception \<times> 'w runtime" where
  "script rt =
     (case main rt of
        (Inl e, rt') \<Rightarrow> (e, rt')
      | (Inr rc, rt') \<Rightarrow> (SystemExit rc, rt'))"

text \<open>
  The interpreter turns the exception that ends the script into the exit status of the
  process: the code of a \<^verbatim>\<open>SystemExit\<close>, and 1 for any other exception. The traceback
  it prints on standard error for such an other exception is the interpreter's own doing
  and is left out: the runtime that \<open>script\<close> returns is what the statements of
  \<^verbatim>\<open>cli.py\<close> leave behind.
\<close>

definition exit_status :: "py_exception \<Rightarrow> int" where
  "exit_status e = (case e of SystemExit rc \<Rightarrow> rc | IndexError \<Rightarrow> 1)"

definition exit_code :: "'w runtime \<Rightarrow> int" where
  "exit_code rt = exit_status (fst (script rt))"

section \<open>Observing an invocation\<close>

text \<open>The text an invocation adds to standard output.\<close>

definition printed :: "'w runtime \<Rightarrow> pystr" where
  "printed rt = drop (length (stdout rt)) (stdout (snd (script rt)))"

text \<open>
  The newline-terminated lines of a text, without their newlines; \<open>None\<close> when the text
  ends in the middle of a line.
\<close>

fun lines_from :: "pystr \<Rightarrow> pystr \<Rightarrow> pystr list option" where
  "lines_from cur [] = (if cur = [] then Some [] else None)"
| "lines_from cur (c # cs) =
     (if c = 10 then map_option ((#) cur) (lines_from [] cs)
      else lines_from (cur @ [c]) cs)"

definition text_lines :: "pystr \<Rightarrow> pystr list option" where
  "text_lines t = lines_from [] t"

text \<open>The \<open>n\<close>-th line of a text, counted from 0.\<close>

definition line :: "nat \<Rightarrow> pystr \<Rightarrow> pystr option" where
  "line n t =
     (case text_lines t of
        None \<Rightarrow> None
      | Some ls \<Rightarrow> if n < length ls then Some (ls ! n) else None)"

text \<open>
  The words of the specification about the version string: it ``contains at least one
  non-whitespace character'', and its ``first whitespace-separated token'' is what
  stands between the leading whitespace and the next whitespace character (or the end).
\<close>

definition has_word :: "pystr \<Rightarrow> bool" where
  "has_word s = (\<exists>c\<in>set s. \<not> isspace c)"

definition first_word :: "pystr \<Rightarrow> pystr" where
  "first_word s = takeWhile (\<lambda>c. \<not> isspace c) (dropWhile isspace s)"

text \<open>
  The pattern \<^verbatim>\<open>Python: X.Y.Z\<close> with non-negative integers \<open>X\<close>, \<open>Y\<close>, \<open>Z\<close>: the
  text behind the prefix, cut at every full stop (U+002E), gives exactly three parts, each
  a non-empty run of the decimal digits U+0030..U+0039.
\<close>

definition isdigit :: "nat \<Rightarrow> bool" where
  "isdigit c = (48 \<le> c \<and> c \<le> 57)"

definition is_number :: "pystr \<Rightarrow> bool" where
  "is_number s = (s \<noteq> [] \<and> list_all isdigit s)"

fun split_at :: "nat \<Rightarrow> pystr \<Rightarrow> pystr list" where
  "split_at sep [] = [[]]"
| "split_at sep (c # cs) =
     (if c = sep then [] # split_at sep cs
      else (case split_at sep cs of [] \<Rightarrow> [[c]] | p # ps \<Rightarrow> (c # p) # ps))"

definition is_xyz :: "pystr \<Rightarrow> bool" where
  "is_xyz s =
     (case split_at 46 s of
        [x, y, z] \<Rightarrow> is_number x \<and> is_number y \<and> is_number z
      | _ \<Rightarrow> False)"

definition matches_version_line :: "pystr \<Rightarrow> bool" where
  "matches_version_line l = (take 8 l = lit ''Python: '' \<and> is_xyz (drop 8 l))"









text \<open>A fresh process: nothing written yet, no environment, an empty world.\<close>

definition fresh :: "pystr \<Rightarrow> pystr list \<Rightarrow> unit runtime" where
  "fresh v args =
     \<lparr>sys_version = v, sys_argv = args, environ = [], stdout = [], stderr = [], world = ()\<rparr>"

section \<open>Basic facts\<close>

lemma sys_version_fresh [simp]: "sys_version (fresh v args) = v"
  by (simp add: fresh_def)

section \<open>Whitespace splitting\<close>

lemma str_split_unfold:
  "str_split s =
     (case dropWhile isspace s of
        [] \<Rightarrow> []
      | c # cs \<Rightarrow>
          (c # takeWhile (\<lambda>x. \<not> isspace x) cs) #
          str_split (dropWhile (\<lambda>x. \<not> isspace x) cs))"
  by (rule str_split.simps)

lemma has_word_dropWhile: "has_word s \<longleftrightarrow> dropWhile isspace s \<noteq> []"
  by (simp add: has_word_def)

lemma has_word_Nil: "\<not> has_word []"
  by (simp add: has_word_def)

lemma has_word_Cons: "has_word (c # cs) \<longleftrightarrow> \<not> isspace c \<or> has_word cs"
  by (simp add: has_word_def)

lemma str_split_Nil_iff: "str_split s = [] \<longleftrightarrow> \<not> has_word s"
  unfolding has_word_dropWhile
  by (subst str_split_unfold)
    (cases "dropWhile isspace s"; simp only: list.case list.distinct simp_thms)

lemma str_split_first:
  assumes "has_word s"
  shows "\<exists>ws. str_split s = first_word s # ws"
proof -
  from assms obtain c cs where dw: "dropWhile isspace s = c # cs"
    by (cases "dropWhile isspace s") (simp_all only: has_word_dropWhile, simp)
  then have "\<not> isspace c"
    using hd_dropWhile [of isspace s] by simp
  then have fw: "first_word s = c # takeWhile (\<lambda>x. \<not> isspace x) cs"
    by (simp add: first_word_def dw)
  have "str_split s =
      (c # takeWhile (\<lambda>x. \<not> isspace x) cs) # str_split (dropWhile (\<lambda>x. \<not> isspace x) cs)"
    by (subst str_split_unfold) (simp only: dw list.case)
  then show ?thesis
    by (simp only: fw) blast
qed

lemma first_word_no_space: "c \<in> set (first_word s) \<Longrightarrow> \<not> isspace c"
  unfolding first_word_def by (rule set_takeWhileD [THEN conjunct2])

lemma first_word_no_newline: "10 \<notin> set (first_word s)"
proof
  assume "10 \<in> set (first_word s)"
  then have "\<not> isspace 10"
    by (rule first_word_no_space)
  then show False
    by (simp add: isspace_def)
qed

lemma first_word_decomp:
  assumes pre: "\<forall>c\<in>set pre. isspace c"
    and tok: "tok \<noteq> []" "\<forall>c\<in>set tok. \<not> isspace c"
    and post: "post = [] \<or> isspace (hd post)"
  shows "first_word (pre @ tok @ post) = tok"
proof -
  from tok have "\<not> isspace (hd tok)"
    by (cases tok) simp_all
  with pre tok have "dropWhile isspace (pre @ tok @ post) = tok @ post"
    by (cases tok) (simp_all add: dropWhile_append)
  moreover have "takeWhile (\<lambda>c. \<not> isspace c) (tok @ post) = tok"
    using tok post by (cases post) (simp_all add: takeWhile_append)
  ultimately show ?thesis
    by (simp add: first_word_def)
qed

section \<open>What an invocation does\<close>

lemma main_eq:
  "main rt =
     (case str_split (sys_version rt) of
        [] \<Rightarrow> (Inl IndexError, print banner rt)
      | tok # ws \<Rightarrow> (Inr 0, print (lit ''Python: '' @ tok) (print banner rt)))"
  by (simp add: main_def getitem_def print_def Let_def split: list.split)

lemma main_raises:
  "\<not> has_word (sys_version rt) \<Longrightarrow> main rt = (Inl IndexError, print banner rt)"
  by (simp add: main_eq str_split_Nil_iff [symmetric])

lemma main_returns:
  assumes "has_word (sys_version rt)"
  shows "main rt =
    (Inr 0, print (lit ''Python: '' @ first_word (sys_version rt)) (print banner rt))"
proof -
  from str_split_first [OF assms] obtain ws
    where "str_split (sys_version rt) = first_word (sys_version rt) # ws" ..
  then show ?thesis
    by (simp add: main_eq)
qed

lemma main_cases:
  "main rt =
     (Inr 0, print (lit ''Python: '' @ first_word (sys_version rt)) (print banner rt)) \<or>
   main rt = (Inl IndexError, print banner rt)"
  by (cases "has_word (sys_version rt)") (simp_all add: main_raises main_returns)

lemma script_raises:
  "\<not> has_word (sys_version rt) \<Longrightarrow> script rt = (IndexError, print banner rt)"
  by (simp add: script_def main_raises)

lemma script_returns:
  "has_word (sys_version rt) \<Longrightarrow>
   script rt =
     (SystemExit 0, print (lit ''Python: '' @ first_word (sys_version rt)) (print banner rt))"
  by (simp add: script_def main_returns)

lemma printed_raises:
  "\<not> has_word (sys_version rt) \<Longrightarrow> printed rt = banner @ [10]"
  by (simp add: printed_def script_raises print_def)

lemma printed_returns:
  "has_word (sys_version rt) \<Longrightarrow>
   printed rt = banner @ [10] @ (lit ''Python: '' @ first_word (sys_version rt)) @ [10]"
  by (simp add: printed_def script_returns print_def)

lemma exit_code_eq: "exit_code rt = (if has_word (sys_version rt) then 0 else 1)"
  by (simp add: exit_code_def exit_status_def script_raises script_returns)

section \<open>Lines of the output\<close>

lemma banner_no_newline: "10 \<notin> set banner"
  by (simp add: banner_def lit_def)

lemma version_line_no_newline: "10 \<notin> set (lit ''Python: '' @ first_word s)"
  by (simp add: first_word_no_newline) (simp add: lit_def)

lemma lines_from_line:
  "10 \<notin> set l \<Longrightarrow>
   lines_from cur (l @ 10 # rest) = map_option ((#) (cur @ l)) (lines_from [] rest)"
  by (induction l arbitrary: cur) auto

lemma text_lines_one: "10 \<notin> set a \<Longrightarrow> text_lines (a @ [10]) = Some [a]"
  using lines_from_line [of a "[]" "[]"] by (simp add: text_lines_def)

lemma text_lines_two:
  assumes "10 \<notin> set a" "10 \<notin> set b"
  shows "text_lines (a @ [10] @ b @ [10]) = Some [a, b]"
proof -
  have "lines_from [] (a @ 10 # b @ [10]) = map_option ((#) a) (lines_from [] (b @ [10]))"
    using lines_from_line [OF assms(1), of "[]" "b @ [10]"] by simp
  also have "lines_from [] (b @ [10]) = Some [b]"
    using text_lines_one [OF assms(2)] by (simp add: text_lines_def)
  finally show ?thesis
    by (simp add: text_lines_def)
qed

lemma text_lines_raises:
  assumes "\<not> has_word (sys_version rt)"
  shows "text_lines (printed rt) = Some [banner]"
  unfolding printed_raises [OF assms]
  by (rule text_lines_one [OF banner_no_newline])

lemma text_lines_returns:
  assumes "has_word (sys_version rt)"
  shows "text_lines (printed rt) = Some [banner, lit ''Python: '' @ first_word (sys_version rt)]"
  unfolding printed_returns [OF assms]
  by (rule text_lines_two [OF banner_no_newline version_line_no_newline])

lemma line_zero: "line 0 (printed rt) = Some banner"
  by (cases "has_word (sys_version rt)")
    (simp_all add: line_def text_lines_raises text_lines_returns)

lemma line_one_returns:
  "has_word (sys_version rt) \<Longrightarrow>
   line 1 (printed rt) = Some (lit ''Python: '' @ first_word (sys_version rt))"
  by (simp add: line_def text_lines_returns)

lemma line_one_raises: "\<not> has_word (sys_version rt) \<Longrightarrow> line 1 (printed rt) = None"
  by (simp add: line_def text_lines_raises)

lemma printed_eq:
  "printed rt =
     (if has_word (sys_version rt)
      then banner @ [10] @ (lit ''Python: '' @ first_word (sys_version rt)) @ [10]
      else banner @ [10])"
  by (simp add: printed_raises printed_returns)

section \<open>The pattern of the version line\<close>

lemma split_at_not_Nil [simp]: "split_at sep s \<noteq> []"
  by (induction s) (auto split: list.split)

lemma split_at_no_sep: "sep \<notin> set x \<Longrightarrow> split_at sep x = [x]"
  by (induction x) auto

lemma split_at_append:
  "sep \<notin> set x \<Longrightarrow> split_at sep (x @ sep # r) = x # split_at sep r"
  by (induction x) auto

lemma split_at_single: "split_at sep s = [p] \<Longrightarrow> s = p \<and> sep \<notin> set p"
  by (induction s arbitrary: p) (auto split: if_splits list.splits)

lemma split_at_more:
  "split_at sep s = p # q # ps \<Longrightarrow>
   \<exists>r. s = p @ sep # r \<and> sep \<notin> set p \<and> split_at sep r = q # ps"
proof (induction s arbitrary: p)
  case Nil
  then show ?case by simp
next
  case (Cons c s)
  show ?case
  proof (cases "c = sep")
    case True
    with Cons.prems show ?thesis by auto
  next
    case False
    with Cons.prems obtain p' where p: "p = c # p'" and s: "split_at sep s = p' # q # ps"
      by (auto split: list.splits)
    from Cons.IH [OF s] obtain r
      where "s = p' @ sep # r" "sep \<notin> set p'" "split_at sep r = q # ps"
      by blast
    with p False show ?thesis by auto
  qed
qed

lemma is_number_no_dot: "is_number x \<Longrightarrow> 46 \<notin> set x"
  by (auto simp: is_number_def list_all_iff isdigit_def)

text \<open>\<open>is_xyz\<close> holds of the strings \<open>X.Y.Z\<close> with three decimal numbers, and of no other.\<close>

lemma is_xyz_iff:
  "is_xyz s \<longleftrightarrow>
   (\<exists>x y z. s = x @ [46] @ y @ [46] @ z \<and> is_number x \<and> is_number y \<and> is_number z)"
proof
  assume "is_xyz s"
  then obtain x y z where parts: "split_at 46 s = [x, y, z]"
    and nums: "is_number x" "is_number y" "is_number z"
    by (auto simp: is_xyz_def split: list.splits)
  from split_at_more [OF parts] obtain r where r: "s = x @ 46 # r" "split_at 46 r = [y, z]"
    by blast
  from split_at_more [OF r(2)] obtain t where t: "r = y @ 46 # t" "split_at 46 t = [z]"
    by blast
  from split_at_single [OF t(2)] have "t = z" ..
  with r t nums
  show "\<exists>x y z. s = x @ [46] @ y @ [46] @ z \<and> is_number x \<and> is_number y \<and> is_number z"
    by auto
next
  assume "\<exists>x y z. s = x @ [46] @ y @ [46] @ z \<and> is_number x \<and> is_number y \<and> is_number z"
  then obtain x y z where s: "s = x @ 46 # y @ 46 # z"
    and nums: "is_number x" "is_number y" "is_number z"
    by auto
  have "split_at 46 s = [x, y, z]"
    unfolding s using nums
    by (simp add: split_at_append split_at_no_sep is_number_no_dot)
  with nums show "is_xyz s"
    by (simp add: is_xyz_def)
qed

lemma matches_version_line_prefix: "matches_version_line (lit ''Python: '' @ t) = is_xyz t"
  by (simp add: matches_version_line_def lit_def)

text \<open>Unfolding these evaluates the predicates on a concrete string.\<close>

lemmas eval_space = lit_def isspace_def has_word_Cons has_word_Nil first_word_def
lemmas eval_pattern = is_xyz_def is_number_def isdigit_def


section \<open>The properties of the specification\<close>

subsection \<open>The banner line\<close>

text \<open>
  Claim C2. For every invocation, whatever the runtime, the first line written to standard
  output is exactly \<^verbatim>\<open>Running example Python CLI from usefull-scripts\<close>. This also holds
  of an invocation that ends with \<^verbatim>\<open>IndexError\<close>: the banner is printed before the
  version string is looked at.
\<close>

theorem first_line_is_banner:
  "line 0 (printed rt) = Some (lit ''Running example Python CLI from usefull-scripts'')"
  using line_zero [of rt] by (simp only: banner_def)

subsection \<open>The version line\<close>

text \<open>
  Claim C1, amended. When the version string holds a non-whitespace character, the second
  line written is \<^verbatim>\<open>Python: \<close> followed by the first whitespace-separated token of
  \<^verbatim>\<open>sys.version\<close>, unchanged. So the line matches the pattern \<^verbatim>\<open>Python: X.Y.Z\<close>
  exactly when that token has the form \<open>X.Y.Z\<close>: a pre-release or build suffix that is
  attached to the token is printed with it, not removed.
\<close>

theorem version_line_pattern:
  "has_word (sys_version rt) \<Longrightarrow>
   line 1 (printed rt) = Some (lit ''Python: '' @ first_word (sys_version rt)) \<and>
   map_option matches_version_line (line 1 (printed rt)) =
     Some (is_xyz (first_word (sys_version rt)))"
  using line_one_returns [of rt] by (simp add: matches_version_line_prefix)

text \<open>A release build of CPython 3.12.1 prints \<^verbatim>\<open>Python: 3.12.1\<close>, which matches.\<close>

theorem version_line_pattern_witness:
  "has_word (lit ''3.12.1 (main, Dec  8 2023, 10:00:00) [GCC 13.2.0]'') \<and>
   line 1 (printed (fresh (lit ''3.12.1 (main, Dec  8 2023, 10:00:00) [GCC 13.2.0]'')
     [lit ''cli.py''])) = Some (lit ''Python: 3.12.1'') \<and>
   map_option matches_version_line
     (line 1 (printed (fresh (lit ''3.12.1 (main, Dec  8 2023, 10:00:00) [GCC 13.2.0]'')
        [lit ''cli.py'']))) = Some True"
proof -
  let ?v = "lit ''3.12.1 (main, Dec  8 2023, 10:00:00) [GCC 13.2.0]''"
  have h: "has_word ?v"
    by (simp add: eval_space)
  have fw: "first_word ?v = lit ''3.12.1''"
    by (simp add: eval_space)
  have xyz: "is_xyz (lit ''3.12.1'')"
    by (simp add: lit_def eval_pattern)
  have cat: "lit ''Python: '' @ lit ''3.12.1'' = lit ''Python: 3.12.1''"
    by (simp add: lit_def)
  have "has_word (sys_version (fresh ?v [lit ''cli.py'']))"
    using h by simp
  from version_line_pattern [OF this] h xyz show ?thesis
    by (auto simp: fw cat)
qed

text \<open>
  The claim as the specification states it fails on a release candidate: the version
  string of CPython 3.13.0rc1 starts with the token \<^verbatim>\<open>3.13.0rc1\<close>, and the second line
  is \<^verbatim>\<open>Python: 3.13.0rc1\<close>, which is not of the form \<^verbatim>\<open>Python: X.Y.Z\<close>.
\<close>

theorem version_line_pattern_counterexample:
  "line 1 (printed (fresh (lit ''3.13.0rc1 (main, Jul 31 2024, 12:00:00) [GCC 13.2.0]'')
      [lit ''cli.py''])) = Some (lit ''Python: 3.13.0rc1'') \<and>
   \<not> matches_version_line (lit ''Python: 3.13.0rc1'')"
proof -
  let ?v = "lit ''3.13.0rc1 (main, Jul 31 2024, 12:00:00) [GCC 13.2.0]''"
  have h: "has_word (sys_version (fresh ?v [lit ''cli.py'']))"
    by (simp add: fresh_def eval_space)
  have fw: "first_word ?v = lit ''3.13.0rc1''"
    by (simp add: eval_space)
  have "line 1 (printed (fresh ?v [lit ''cli.py''])) = Some (lit ''Python: 3.13.0rc1'')"
    using line_one_returns [OF h] fw by (simp add: fresh_def lit_def)
  moreover have "\<not> matches_version_line (lit ''Python: 3.13.0rc1'')"
    by (simp add: matches_version_line_def lit_def eval_pattern)
  ultimately show ?thesis ..
qed

text \<open>
  Claim C9. The text printed behind \<^verbatim>\<open>Python: \<close> on the second line is the first
  whitespace-separated token of \<^verbatim>\<open>sys.version\<close>, character for character: when the
  version string is some whitespace \<open>pre\<close> (possibly none), then a non-empty run \<open>tok\<close>
  of non-whitespace characters, then either nothing or a rest \<open>post\<close> that starts with
  a whitespace character, the subscript yields \<open>tok\<close> and the second line is
  \<^verbatim>\<open>Python: \<close> followed by \<open>tok\<close>, whatever characters \<open>tok\<close> is made of.
\<close>

theorem version_line_is_first_token:
  assumes "sys_version rt = pre @ tok @ post"
    and "\<not> has_word pre"
    and "tok \<noteq> []" and "list_all (\<lambda>c. \<not> isspace c) tok"
    and "post = [] \<or> isspace (hd post)"
  shows "getitem (str_split (sys_version rt)) 0 = Inr tok \<and>
    line 1 (printed rt) = Some (lit ''Python: '' @ tok)"
proof -
  have fw: "first_word (sys_version rt) = tok"
    using assms by (simp add: first_word_decomp has_word_def list_all_iff)
  have h: "has_word (sys_version rt)"
    using assms(1,3,4) by (cases tok) (auto simp: has_word_def)
  from str_split_first [OF h] obtain ws where "str_split (sys_version rt) = tok # ws"
    unfolding fw ..
  then have "getitem (str_split (sys_version rt)) 0 = Inr tok"
    by (simp add: getitem_def)
  with line_one_returns [OF h] fw show ?thesis
    by simp
qed

text \<open>
  A development build, with a leading blank put in front of its version string: the token
  \<^verbatim>\<open>3.13.0a1+\<close> is printed with its suffix.
\<close>

theorem version_line_is_first_token_witness:
  "\<not> has_word (lit '' '') \<and> lit ''3.13.0a1+'' \<noteq> [] \<and>
   list_all (\<lambda>c. \<not> isspace c) (lit ''3.13.0a1+'') \<and>
   isspace (hd (lit '' (heads/main:4ea6c5f, Nov  2 2023, 09:15:41) [Clang 15.0.0]'')) \<and>
   getitem
     (str_split
       (lit '' 3.13.0a1+ (heads/main:4ea6c5f, Nov  2 2023, 09:15:41) [Clang 15.0.0]'')) 0 =
     Inr (lit ''3.13.0a1+'') \<and>
   line 1 (printed (fresh
       (lit '' 3.13.0a1+ (heads/main:4ea6c5f, Nov  2 2023, 09:15:41) [Clang 15.0.0]'')
       [lit ''cli.py''])) = Some (lit ''Python: 3.13.0a1+'')"
proof -
  let ?pre = "lit '' ''" and ?tok = "lit ''3.13.0a1+''"
    and ?post = "lit '' (heads/main:4ea6c5f, Nov  2 2023, 09:15:41) [Clang 15.0.0]''"
  let ?rt = "fresh
    (lit '' 3.13.0a1+ (heads/main:4ea6c5f, Nov  2 2023, 09:15:41) [Clang 15.0.0]'')
    [lit ''cli.py'']"
  have v: "sys_version ?rt = ?pre @ ?tok @ ?post"
    by (simp add: fresh_def lit_def)
  have pre: "\<not> has_word ?pre"
    by (simp add: eval_space)
  have tok: "?tok \<noteq> []" "list_all (\<lambda>c. \<not> isspace c) ?tok"
    by (simp_all add: lit_def isspace_def)
  have post: "isspace (hd ?post)"
    by (simp add: lit_def isspace_def)
  then have "?post = [] \<or> isspace (hd ?post)" ..
  from version_line_is_first_token [OF v pre tok this] pre tok post show ?thesis
    by (simp add: fresh_def lit_def)
qed

subsection \<open>The two lines\<close>

text \<open>
  Claim C6. Every invocation writes exactly two newline-terminated lines to standard
  output, in this order: the banner line, then the version line. The hypothesis is the
  scope of the specification, that the interpreter reports a version: the version string
  of an interpreter starts with a token, so it holds a non-whitespace character.
\<close>

theorem two_lines_with_version:
  "has_word (sys_version rt) \<Longrightarrow>
   text_lines (printed rt) =
     Some [lit ''Running example Python CLI from usefull-scripts'',
           lit ''Python: '' @ first_word (sys_version rt)]"
  by (simp add: text_lines_returns banner_def)

theorem two_lines_with_version_witness:
  "has_word (lit ''3.12.1 (main, Dec  8 2023, 10:00:00) [GCC 13.2.0]'') \<and>
   text_lines (printed (fresh (lit ''3.12.1 (main, Dec  8 2023, 10:00:00) [GCC 13.2.0]'')
     [lit ''cli.py''])) =
     Some [lit ''Running example Python CLI from usefull-scripts'', lit ''Python: 3.12.1'']"
proof -
  let ?v = "lit ''3.12.1 (main, Dec  8 2023, 10:00:00) [GCC 13.2.0]''"
  have h: "has_word ?v"
    by (simp add: eval_space)
  have fw: "first_word ?v = lit ''3.12.1''"
    by (simp add: eval_space)
  have cat: "lit ''Python: '' @ lit ''3.12.1'' = lit ''Python: 3.12.1''"
    by (simp add: lit_def)
  have "has_word (sys_version (fresh ?v [lit ''cli.py'']))"
    using h by simp
  from two_lines_with_version [OF this] h show ?thesis
    by (simp add: fw cat)
qed

subsection \<open>The result of an invocation\<close>

text \<open>
  Claim C3. Every invocation succeeds with exit status 0: \<open>main\<close> returns 0 and raises
  no exception, the script ends with \<^verbatim>\<open>SystemExit\<close> carrying that value, and the exit
  status of the process is that value. The hypothesis is the scope of the specification,
  that the interpreter reports a version: the version string of an interpreter starts
  with a token, so it holds a non-whitespace character.
\<close>

theorem succeeds_with_version:
  "has_word (sys_version rt) \<Longrightarrow>
   fst (main rt) = Inr 0 \<and> fst (script rt) = SystemExit 0 \<and> exit_code rt = 0"
  by (simp add: main_returns script_returns exit_code_eq)

theorem succeeds_with_version_witness:
  "has_word (lit ''3.12.1 (main, Dec  8 2023, 10:00:00) [GCC 13.2.0]'') \<and>
   fst (main (fresh (lit ''3.12.1 (main, Dec  8 2023, 10:00:00) [GCC 13.2.0]'')
     [lit ''cli.py''])) = Inr 0 \<and>
   fst (script (fresh (lit ''3.12.1 (main, Dec  8 2023, 10:00:00) [GCC 13.2.0]'')
     [lit ''cli.py''])) = SystemExit 0 \<and>
   exit_code (fresh (lit ''3.12.1 (main, Dec  8 2023, 10:00:00) [GCC 13.2.0]'')
     [lit ''cli.py'']) = 0"
proof -
  let ?v = "lit ''3.12.1 (main, Dec  8 2023, 10:00:00) [GCC 13.2.0]''"
  have h: "has_word ?v"
    by (simp add: eval_space)
  then have "has_word (sys_version (fresh ?v [lit ''cli.py'']))"
    by simp
  from succeeds_with_version [OF this] h show ?thesis
    by simp
qed

text \<open>
  Claim C10. \<open>main\<close> returns exactly when the version string holds a non-whitespace
  character: then the list that \<^verbatim>\<open>split()\<close> gives is not empty, index 0 is in
  bounds and \<open>main\<close> returns 0. For an empty or all-whitespace version string the list
  is empty and \<open>main\<close> ends with \<^verbatim>\<open>IndexError\<close>.
\<close>

theorem main_total_iff_version_has_word:
  "(str_split (sys_version rt) \<noteq> [] \<longleftrightarrow> has_word (sys_version rt)) \<and>
   (fst (main rt) = Inr 0 \<longleftrightarrow> has_word (sys_version rt)) \<and>
   (fst (main rt) = Inl IndexError \<longleftrightarrow> \<not> has_word (sys_version rt))"
  by (cases "has_word (sys_version rt)")
    (simp_all add: main_raises main_returns str_split_Nil_iff)

text \<open>Both sides, at a release build and at a version string of a blank, a tab and a newline.\<close>

theorem main_total_iff_version_has_word_witness:
  "has_word (lit ''3.12.1 (main, Dec  8 2023, 10:00:00) [GCC 13.2.0]'') \<and>
   fst (main (fresh (lit ''3.12.1 (main, Dec  8 2023, 10:00:00) [GCC 13.2.0]'')
     [lit ''cli.py''])) = Inr 0 \<and>
   \<not> has_word [32, 9, 10] \<and>
   fst (main (fresh [32, 9, 10] [lit ''cli.py''])) = Inl IndexError"
proof -
  let ?v = "lit ''3.12.1 (main, Dec  8 2023, 10:00:00) [GCC 13.2.0]''"
  have h: "has_word ?v"
    by (simp add: eval_space)
  have b: "\<not> has_word [32, 9, 10]"
    by (simp add: eval_space)
  from main_total_iff_version_has_word [of "fresh ?v [lit ''cli.py'']"]
    main_total_iff_version_has_word [of "fresh [32, 9, 10] [lit ''cli.py'']"] h b
  show ?thesis
    by simp
qed

subsection \<open>What an invocation depends on, and what it changes\<close>

text \<open>
  Claim C4. The arguments are ignored: in the same runtime, two invocations with any two
  argument vectors, such as one with the script name alone and one with further arguments,
  write the same text to standard output and end with the same exit status.
\<close>

theorem arguments_ignored:
  "printed (rt\<lparr>sys_argv := a\<rparr>) = printed (rt\<lparr>sys_argv := b\<rparr>) \<and>
   exit_code (rt\<lparr>sys_argv := a\<rparr>) = exit_code (rt\<lparr>sys_argv := b\<rparr>)"
  by (simp add: printed_eq exit_code_eq)




text \<open>
  Claim C7. The statements of the script change standard output and nothing else: the
  runtime after an invocation is the runtime before it with the printed text appended to
  standard output, for \<open>main\<close> as for the whole script. Nothing but the version string
  is read: with other arguments, environment variables, earlier output on the two streams
  and world, the script ends in the same way and prints the same text.
\<close>

theorem only_stdout_changes:
  "snd (script rt) = rt\<lparr>stdout := stdout rt @ printed rt\<rparr> \<and>
   snd (main rt) = snd (script rt) \<and>
   fst (script (rt\<lparr>sys_argv := a, environ := e, stdout := t, stderr := x, world := w\<rparr>)) =
     fst (script rt) \<and>
   printed (rt\<lparr>sys_argv := a, environ := e, stdout := t, stderr := x, world := w\<rparr>) =
     printed rt"
  by (cases "has_word (sys_version rt)")
    (simp_all add: printed_eq script_raises script_returns main_raises main_returns print_def)

end
